theory Spec2Isabelle
  imports Complex_Main
begin

section \<open>On-call compensation calculator (src/src/App.tsx)\<close>

text \<open>
  The business logic of \<^verbatim>\<open>App.tsx\<close>: the Czech holiday resolver, the standard monthly
  hours, the shift attribution loop, the work-log loop and the monetary rollup.

  Conventions of the embedding:
  \<^item> a JavaScript \<^verbatim>\<open>Date\<close> is used by the code only through its local calendar fields
    (\<^verbatim>\<open>getFullYear\<close>, \<^verbatim>\<open>getMonth\<close>, \<^verbatim>\<open>getDate\<close>, \<^verbatim>\<open>getDay\<close>), so it is a record of
    year, zero-based month and day of month; the time of day, which \<^verbatim>\<open>isSameDay\<close>
    discards, is not modelled, and every date string of the state is taken as already
    parsed to a valid date;
  \<^item> the library functions on dates (the ECMAScript \<^verbatim>\<open>Date\<close> constructor and
    \<^verbatim>\<open>setDate\<close>, and the date-fns helpers) are modelled after the ECMAScript
    specification: \<^verbatim>\<open>MakeDay\<close>, \<^verbatim>\<open>DayFromYear\<close>, \<^verbatim>\<open>WeekDay\<close>;
  \<^item> a JavaScript \<^verbatim>\<open>number\<close> holding hours, rates or money is a \<^typ>\<open>real\<close>: rounding
    of doubles, \<^verbatim>\<open>NaN\<close> and the infinities are not modelled;
  \<^item> the string-typed tags (\<^verbatim>\<open>profile\<close>, the \<^verbatim>\<open>type\<close> of a selected day) are strings, as
    they are at run time, where the state is read back from local storage.
\<close>

subsection \<open>Calendar dates\<close>

record JsDate =
  fullYear :: int
  monthIndex :: int
  dayOfMonth :: int

definition getFullYear :: "JsDate \<Rightarrow> int" where
  "getFullYear date = fullYear date"

definition getMonth :: "JsDate \<Rightarrow> int" where
  "getMonth date = monthIndex date"

definition getDate :: "JsDate \<Rightarrow> int" where
  "getDate date = dayOfMonth date"

text \<open>The remainder operator \<^verbatim>\<open>%\<close> of JavaScript takes the sign of the dividend.\<close>

definition jsRem :: "int \<Rightarrow> int \<Rightarrow> int" where
  "jsRem a n = (if 0 \<le> a then a mod \<bar>n\<bar> else - ((- a) mod \<bar>n\<bar>))"

definition isLeapYear :: "int \<Rightarrow> bool" where
  "isLeapYear y = (y mod 4 = 0 \<and> (y mod 100 \<noteq> 0 \<or> y mod 400 = 0))"

definition daysInMonth :: "int \<Rightarrow> int \<Rightarrow> int" where
  "daysInMonth y m =
     (if m = 1 then (if isLeapYear y then 29 else 28)
      else if m = 3 \<or> m = 5 \<or> m = 8 \<or> m = 10 then 30
      else 31)"

definition prevMonth :: "int \<times> int \<Rightarrow> int \<times> int" where
  "prevMonth ym = (case ym of (y, m) \<Rightarrow> if m = 0 then (y - 1, 11) else (y, m - 1))"

definition nextMonth :: "int \<times> int \<Rightarrow> int \<times> int" where
  "nextMonth ym = (case ym of (y, m) \<Rightarrow> if m = 11 then (y + 1, 0) else (y, m + 1))"

text \<open>
  A day of month outside its month rolls over into the neighbouring months, as the day
  number \<^verbatim>\<open>MakeDay(year, month, 1) + date - 1\<close> read back as a calendar date does.
\<close>

function rollDay :: "int \<Rightarrow> int \<Rightarrow> int \<Rightarrow> JsDate" where
  "rollDay y m n =
     (if n < 1 then
        (case prevMonth (y, m) of (y', m') \<Rightarrow> rollDay y' m' (n + daysInMonth y' m'))
      else if daysInMonth y m < n then
        (case nextMonth (y, m) of (y', m') \<Rightarrow> rollDay y' m' (n - daysInMonth y m))
      else \<lparr>fullYear = y, monthIndex = m, dayOfMonth = n\<rparr>)"
  by pat_completeness auto
termination
  by (relation "measure (\<lambda>(y, m, n). if n < 1 then 32 + nat (1 - n) else nat n)")
     (auto simp: daysInMonth_def prevMonth_def nextMonth_def split: if_splits)

declare rollDay.simps [simp del]

text \<open>\<^verbatim>\<open>MakeDay\<close>: the month is reduced modulo 12 into the year first.\<close>

definition makeDay :: "int \<Rightarrow> int \<Rightarrow> int \<Rightarrow> JsDate" where
  "makeDay y m n = rollDay (y + m div 12) (m mod 12) n"

text \<open>
  \<^verbatim>\<open>new Date(year, month, day)\<close>: a year from 0 to 99 stands for 1900 + year
  (ECMAScript, the Date constructor with two or more arguments).
\<close>

definition newDate :: "int \<Rightarrow> int \<Rightarrow> int \<Rightarrow> JsDate" where
  "newDate y m n = makeDay (if 0 \<le> y \<and> y \<le> 99 then 1900 + y else y) m n"

definition setDate :: "JsDate \<Rightarrow> int \<Rightarrow> JsDate" where
  "setDate date n = makeDay (fullYear date) (monthIndex date) n"

text \<open>\<^verbatim>\<open>isSameDay\<close> of date-fns compares the two dates at the start of their day.\<close>

definition isSameDay :: "JsDate \<Rightarrow> JsDate \<Rightarrow> bool" where
  "isSameDay a b = (a = b)"

text \<open>\<^verbatim>\<open>DayFromYear\<close> and the day number of a date, counted from 1 January 1970.\<close>

definition dayFromYear :: "int \<Rightarrow> int" where
  "dayFromYear y =
     365 * (y - 1970) + (y - 1969) div 4 - (y - 1901) div 100 + (y - 1601) div 400"

definition daysBeforeMonth :: "int \<Rightarrow> int \<Rightarrow> int" where
  "daysBeforeMonth y m = sum_list (map (daysInMonth y) [0..m - 1])"

definition dayNumber :: "JsDate \<Rightarrow> int" where
  "dayNumber date =
     dayFromYear (fullYear date) + daysBeforeMonth (fullYear date) (monthIndex date)
       + dayOfMonth date - 1"

text \<open>\<^verbatim>\<open>getDay\<close>: 0 is Sunday and 6 is Saturday; 1 January 1970 was a Thursday.\<close>

definition getDay :: "JsDate \<Rightarrow> int" where
  "getDay date = (dayNumber date + 4) mod 7"

definition isWeekend :: "JsDate \<Rightarrow> bool" where
  "isWeekend date = (getDay date = 0 \<or> getDay date = 6)"

definition startOfMonth :: "JsDate \<Rightarrow> JsDate" where
  "startOfMonth date = setDate date 1"

text \<open>\<^verbatim>\<open>endOfMonth\<close> of date-fns: \<^verbatim>\<open>setFullYear(year, month + 1, 0)\<close>.\<close>

definition endOfMonth :: "JsDate \<Rightarrow> JsDate" where
  "endOfMonth date = makeDay (fullYear date) (monthIndex date + 1) 0"

text \<open>
  \<^verbatim>\<open>eachDayOfInterval\<close> of date-fns: from the start, one day further by
  \<^verbatim>\<open>setDate(getDate() + 1)\<close> at each step, as long as the end is not passed; the date
  of step \<open>i\<close> is the start moved on by \<open>i\<close> days. The code calls it only with the first
  and the last day of one month, so a start after the end is not modelled.
\<close>

definition eachDayOfInterval :: "JsDate \<Rightarrow> JsDate \<Rightarrow> JsDate list" where
  "eachDayOfInterval start end' =
     map (\<lambda>i. setDate start (getDate start + int i))
       [0..<nat (dayNumber end' - dayNumber start + 1)]"

subsection \<open>Holiday resolver\<close>

definition getEasterSunday :: "int \<Rightarrow> JsDate" where
  "getEasterSunday year =
     (let a = jsRem year 19;
          b = year div 100;
          c = jsRem year 100;
          d = b div 4;
          e = jsRem b 4;
          f = (b + 8) div 25;
          g = (b - f + 1) div 3;
          h = jsRem (19 * a + b - d - g + 15) 30;
          i = c div 4;
          k = jsRem c 4;
          l = jsRem (32 + 2 * e + 2 * i - h - k) 7;
          m = (a + 11 * h + 22 * l) div 451;
          month = (h + l - 7 * m + 114) div 31 - 1;
          day = jsRem (h + l - 7 * m + 114) 31 + 1
      in newDate year month day)"

text \<open>The table of fixed holidays, as pairs of day and zero-based month.\<close>

definition fixedHolidays :: "(int \<times> int) list" where
  "fixedHolidays =
     [(1, 0), (1, 4), (8, 4), (5, 6), (6, 6), (28, 8), (28, 9), (17, 10),
      (24, 11), (25, 11), (26, 11)]"

definition isCzechHoliday :: "JsDate \<Rightarrow> bool" where
  "isCzechHoliday date =
     (let d = getDate date;
          m = getMonth date;
          y = getFullYear date
      in if list_ex (\<lambda>h. fst h = d \<and> snd h = m) fixedHolidays then True
         else
           let easterSunday = getEasterSunday y;
               goodFriday = setDate easterSunday (getDate easterSunday - 2)
           in if isSameDay date goodFriday then True
              else
                let easterMonday = setDate easterSunday (getDate easterSunday + 1)
                in if isSameDay date easterMonday then True else False)"

subsection \<open>Standard monthly hours\<close>

definition calculateStandardMonthlyHours :: "JsDate \<Rightarrow> int" where
  "calculateStandardMonthlyHours date =
     (let start = startOfMonth date;
          end' = endOfMonth date;
          days = eachDayOfInterval start end';
          workingDays = filter (\<lambda>d. \<not> isWeekend d) days
      in int (length workingDays) * 8)"

subsection \<open>The application state\<close>

record SelectedDay =
  day_date :: JsDate
  day_type :: string

record Rates =
  onCall :: real
  otNormal :: real
  otHoliday :: real

record WorkLog =
  log_id :: string
  log_date :: JsDate
  log_hours :: real
  log_isHolidayOverride :: bool

record AppState =
  monthlySalary :: real
  selectedDate :: JsDate
  monthlyHoursOverride :: "real option"
  profile :: string
  customRates :: Rates
  selectedOnCallDates :: "SelectedDay list"
  workLogs :: "WorkLog list"

subsection \<open>Derived values\<close>

definition standardMonthlyHours :: "AppState \<Rightarrow> real" where
  "standardMonthlyHours state = of_int (calculateStandardMonthlyHours (selectedDate state))"

text \<open>
  \<^verbatim>\<open>state.monthlyHoursOverride || standardMonthlyHours\<close>: the operator \<^verbatim>\<open>||\<close> yields its
  right operand when the left one is falsy, and both \<^verbatim>\<open>null\<close> and the number 0 are falsy.
\<close>

definition effectiveMonthlyHours :: "AppState \<Rightarrow> real" where
  "effectiveMonthlyHours state =
     (case monthlyHoursOverride state of
        None \<Rightarrow> standardMonthlyHours state
      | Some v \<Rightarrow> if v = 0 then standardMonthlyHours state else v)"

definition hourlyWage :: "AppState \<Rightarrow> real" where
  "hourlyWage state =
     (if effectiveMonthlyHours state > 0
      then monthlySalary state / effectiveMonthlyHours state else 0)"

definition rates :: "AppState \<Rightarrow> Rates" where
  "rates state =
     (if profile state = ''custom'' then customRates state
      else if profile state = ''devops''
        then \<lparr>onCall = 0.2, otNormal = 0.5, otHoliday = 1.5\<rparr>
      else \<lparr>onCall = 0.1, otNormal = 0.5, otHoliday = 1.5\<rparr>)"

subsection \<open>Calculator engine\<close>

text \<open>
  The body of the loop over the selected on-call days, on the running total. Every
  \<^verbatim>\<open>return\<close> of the callback ends the step for that day.
\<close>

definition standbyStep :: "real \<Rightarrow> SelectedDay \<Rightarrow> real" where
  "standbyStep totalStandbyHours item =
     (let date = day_date item;
          isHoliday = isCzechHoliday date;
          isWe = isWeekend date
      in if day_type item = ''start'' then
           (if isHoliday \<or> isWe then totalStandbyHours + 15 else totalStandbyHours + 7)
         else if day_type item = ''end'' then totalStandbyHours + 9
         else if day_type item = ''split'' then totalStandbyHours + 16
         else if isHoliday \<or> isWe then totalStandbyHours + 24
         else totalStandbyHours + 16)"

definition standbyHoursOf :: "SelectedDay list \<Rightarrow> real" where
  "standbyHoursOf items = foldl standbyStep 0 items"

text \<open>
  The body of the loop over the work logs, on the three running totals
  \<^verbatim>\<open>totalWorkNormal\<close>, \<^verbatim>\<open>totalWorkHoliday\<close> and \<^verbatim>\<open>totalWorkDuration\<close>.
\<close>

record WorkTotals =
  workNormal :: real
  workHoliday :: real
  workDuration :: real

definition workLogStep :: "WorkTotals \<Rightarrow> WorkLog \<Rightarrow> WorkTotals" where
  "workLogStep acc wlog =
     (let logDate = log_date wlog;
          autoHoliday = isCzechHoliday logDate;
          isHoliday = autoHoliday \<or> log_isHolidayOverride wlog;
          acc' = (if isHoliday then acc\<lparr>workHoliday := workHoliday acc + log_hours wlog\<rparr>
                  else acc\<lparr>workNormal := workNormal acc + log_hours wlog\<rparr>)
      in acc'\<lparr>workDuration := workDuration acc' + log_hours wlog\<rparr>)"

definition workTotalsOf :: "WorkLog list \<Rightarrow> WorkTotals" where
  "workTotalsOf logs =
     foldl workLogStep \<lparr>workNormal = 0, workHoliday = 0, workDuration = 0\<rparr> logs"

text \<open>
  The object that \<^verbatim>\<open>calculation\<close> returns; its fields carry the prefix \<open>res_\<close>, since
  \<open>hourlyWage\<close> also names the derived value above.
\<close>

record Calculation =
  res_paidStandbyHours :: real
  res_totalWorkNormal :: real
  res_totalWorkHoliday :: real
  res_onCallFee :: real
  res_overtimeNormalPay :: real
  res_overtimeHolidayPay :: real
  res_totalExtra :: real
  res_hourlyWage :: real

definition calculation :: "AppState \<Rightarrow> Calculation" where
  "calculation state =
     (let totalStandbyHours = standbyHoursOf (selectedOnCallDates state);
          totals = workTotalsOf (workLogs state);
          totalWorkNormal = workNormal totals;
          totalWorkHoliday = workHoliday totals;
          totalWorkDuration = workDuration totals;
          paidStandbyHours = max 0 (totalStandbyHours - totalWorkDuration);
          onCallFee = paidStandbyHours * hourlyWage state * onCall (rates state);
          overtimeNormalPay =
            totalWorkNormal * hourlyWage state * (1 + otNormal (rates state));
          overtimeHolidayPay =
            totalWorkHoliday * hourlyWage state * (1 + otHoliday (rates state));
          totalExtra = onCallFee + overtimeNormalPay + overtimeHolidayPay
      in \<lparr>res_paidStandbyHours = paidStandbyHours,
          res_totalWorkNormal = totalWorkNormal,
          res_totalWorkHoliday = totalWorkHoliday,
          res_onCallFee = onCallFee,
          res_overtimeNormalPay = overtimeNormalPay,
          res_overtimeHolidayPay = overtimeHolidayPay,
          res_totalExtra = totalExtra,
          res_hourlyWage = hourlyWage state\<rparr>)"

subsection \<open>Example inputs\<close>

text \<open>
  The state the application starts from, with April 2024 as the selected month:
  a month of 22 weekdays.
\<close>

definition aprilState :: AppState where
  "aprilState =
     \<lparr>monthlySalary = 80000,
      selectedDate = \<lparr>fullYear = 2024, monthIndex = 3, dayOfMonth = 15\<rparr>,
      monthlyHoursOverride = None,
      profile = ''devops'',
      customRates = \<lparr>onCall = 0.2, otNormal = 0.5, otHoliday = 1.5\<rparr>,
      selectedOnCallDates = [],
      workLogs = []\<rparr>"

definition fortyHourShifts :: "SelectedDay list" where
  "fortyHourShifts =
     [\<lparr>day_date = \<lparr>fullYear = 2024, monthIndex = 3, dayOfMonth = 6\<rparr>, day_type = ''full''\<rparr>,
      \<lparr>day_date = \<lparr>fullYear = 2024, monthIndex = 3, dayOfMonth = 2\<rparr>, day_type = ''full''\<rparr>]"

definition allVariantShifts :: "SelectedDay list" where
  "allVariantShifts =
     [\<lparr>day_date = \<lparr>fullYear = 2024, monthIndex = 3, dayOfMonth = 6\<rparr>, day_type = ''full''\<rparr>,
      \<lparr>day_date = \<lparr>fullYear = 2024, monthIndex = 3, dayOfMonth = 2\<rparr>, day_type = ''full''\<rparr>,
      \<lparr>day_date = \<lparr>fullYear = 2024, monthIndex = 3, dayOfMonth = 3\<rparr>, day_type = ''start''\<rparr>,
      \<lparr>day_date = \<lparr>fullYear = 2024, monthIndex = 3, dayOfMonth = 7\<rparr>, day_type = ''start''\<rparr>,
      \<lparr>day_date = \<lparr>fullYear = 2024, monthIndex = 3, dayOfMonth = 4\<rparr>, day_type = ''end''\<rparr>,
      \<lparr>day_date = \<lparr>fullYear = 2024, monthIndex = 3, dayOfMonth = 1\<rparr>, day_type = ''end''\<rparr>,
      \<lparr>day_date = \<lparr>fullYear = 2024, monthIndex = 3, dayOfMonth = 5\<rparr>, day_type = ''split''\<rparr>,
      \<lparr>day_date = \<lparr>fullYear = 2024, monthIndex = 3, dayOfMonth = 13\<rparr>, day_type = ''split''\<rparr>,
      \<lparr>day_date = \<lparr>fullYear = 2024, monthIndex = 4, dayOfMonth = 1\<rparr>, day_type = ''full''\<rparr>]"

definition workLogOf :: "JsDate \<Rightarrow> real \<Rightarrow> bool \<Rightarrow> WorkLog" where
  "workLogOf d h ov =
     \<lparr>log_id = ''a1b2c3d4e'', log_date = d, log_hours = h, log_isHolidayOverride = ov\<rparr>"

section \<open>Properties\<close>

subsection \<open>Effective monthly hours and hourly wage\<close>

lemma april_2024_hours:
  "calculateStandardMonthlyHours \<lparr>fullYear = 2024, monthIndex = 3, dayOfMonth = 15\<rparr> = 176"
  by code_simp

lemma aprilState_standard:
  "standardMonthlyHours (aprilState\<lparr>monthlyHoursOverride := v\<rparr>) = 176"
  by (simp add: standardMonthlyHours_def aprilState_def april_2024_hours)

text \<open>
  C1 (as amended). The effective monthly hours are the override when it is present and
  not zero; they are the standard hours of the selected month when the override is null
  and also when it is 0, which \<^verbatim>\<open>||\<close> treats like null. The hourly wage is derived from
  these effective hours.
\<close>

theorem effectiveMonthlyHours_override:
  "(monthlyHoursOverride state = Some v \<and> v \<noteq> 0 \<longrightarrow> effectiveMonthlyHours state = v) \<and>
   (monthlyHoursOverride state = Some 0 \<longrightarrow>
      effectiveMonthlyHours state = of_int (calculateStandardMonthlyHours (selectedDate state))) \<and>
   (monthlyHoursOverride state = None \<longrightarrow>
      effectiveMonthlyHours state = of_int (calculateStandardMonthlyHours (selectedDate state))) \<and>
   hourlyWage state =
     (if effectiveMonthlyHours state > 0 then monthlySalary state / effectiveMonthlyHours state
      else 0)"
  by (simp add: effectiveMonthlyHours_def standardMonthlyHours_def hourlyWage_def)

theorem effectiveMonthlyHours_override_witness:
  "effectiveMonthlyHours (aprilState\<lparr>monthlyHoursOverride := Some 160\<rparr>) = 160 \<and>
   effectiveMonthlyHours (aprilState\<lparr>monthlyHoursOverride := Some 0\<rparr>) = 176 \<and>
   effectiveMonthlyHours (aprilState\<lparr>monthlyHoursOverride := None\<rparr>) = 176 \<and>
   hourlyWage (aprilState\<lparr>monthlyHoursOverride := Some 160\<rparr>) = 500"
proof -
  have sel: "selectedDate (aprilState\<lparr>monthlyHoursOverride := v\<rparr>)
      = \<lparr>fullYear = 2024, monthIndex = 3, dayOfMonth = 15\<rparr>" for v
    by (simp add: aprilState_def)
  have sal: "monthlySalary (aprilState\<lparr>monthlyHoursOverride := v\<rparr>) = 80000" for v
    by (simp add: aprilState_def)
  show ?thesis
    using effectiveMonthlyHours_override [of "aprilState\<lparr>monthlyHoursOverride := Some 160\<rparr>" 160]
      effectiveMonthlyHours_override [of "aprilState\<lparr>monthlyHoursOverride := Some 0\<rparr>" 0]
      effectiveMonthlyHours_override [of "aprilState\<lparr>monthlyHoursOverride := None\<rparr>" 0]
    by (simp add: sel sal april_2024_hours)
qed

text \<open>
  C1 as stated fails at an override of 0: the effective hours are then the 176 standard
  hours of April 2024, not the override.
\<close>

theorem override_zero_counterexample:
  "monthlyHoursOverride (aprilState\<lparr>monthlyHoursOverride := Some 0\<rparr>) = Some 0 \<and>
   effectiveMonthlyHours (aprilState\<lparr>monthlyHoursOverride := Some 0\<rparr>) = 176"
  by (simp add: effectiveMonthlyHours_def aprilState_standard)

text \<open>
  C9. Whenever the effective monthly hours are zero or negative the hourly wage is 0:
  the division is evaluated only when the effective hours are positive.
\<close>

theorem hourlyWage_guarded:
  assumes "effectiveMonthlyHours state \<le> 0"
  shows "hourlyWage state = 0"
  using assms by (simp add: hourlyWage_def)

text \<open>
  With an override of -8 hours and a salary of 80000 the wage is 0, where the unguarded
  quotient would be -10000.
\<close>

theorem hourlyWage_guarded_witness:
  "effectiveMonthlyHours (aprilState\<lparr>monthlyHoursOverride := Some (- 8)\<rparr>) \<le> 0 \<and>
   hourlyWage (aprilState\<lparr>monthlyHoursOverride := Some (- 8)\<rparr>) = 0 \<and>
   monthlySalary (aprilState\<lparr>monthlyHoursOverride := Some (- 8)\<rparr>)
     / effectiveMonthlyHours (aprilState\<lparr>monthlyHoursOverride := Some (- 8)\<rparr>) = - 10000"
proof -
  have e: "effectiveMonthlyHours (aprilState\<lparr>monthlyHoursOverride := Some (- 8)\<rparr>) = - 8"
    by (simp add: effectiveMonthlyHours_def)
  have h: "effectiveMonthlyHours (aprilState\<lparr>monthlyHoursOverride := Some (- 8)\<rparr>) \<le> 0"
    by (simp add: e)
  have s: "monthlySalary (aprilState\<lparr>monthlyHoursOverride := Some (- 8)\<rparr>) = 80000"
    by (simp add: aprilState_def)
  show ?thesis
    using hourlyWage_guarded [OF h] by (simp add: e s)
qed

subsection \<open>Rate profiles\<close>

lemma standardMonthlyHours_customRates:
  "standardMonthlyHours (state\<lparr>customRates := cr\<rparr>) = standardMonthlyHours state"
  by (simp add: standardMonthlyHours_def)

lemma effectiveMonthlyHours_customRates:
  "effectiveMonthlyHours (state\<lparr>customRates := cr\<rparr>) = effectiveMonthlyHours state"
  by (simp add: effectiveMonthlyHours_def standardMonthlyHours_customRates split: option.split)

lemma hourlyWage_customRates:
  "hourlyWage (state\<lparr>customRates := cr\<rparr>) = hourlyWage state"
  by (simp add: hourlyWage_def effectiveMonthlyHours_customRates)

lemma rates_customRates:
  "profile state \<noteq> ''custom'' \<Longrightarrow> rates (state\<lparr>customRates := cr\<rparr>) = rates state"
  by (simp add: rates_def)

text \<open>
  C10. The profile \<^verbatim>\<open>other\<close> resolves to the rates 0.1, 0.5 and 1.5, whatever the rest of
  the state is; and under every profile but \<^verbatim>\<open>custom\<close> the custom rates change neither the
  rates nor the calculated result.
\<close>

theorem rates_other_fixed:
  "rates (state\<lparr>profile := ''other''\<rparr>) = \<lparr>onCall = 0.1, otNormal = 0.5, otHoliday = 1.5\<rparr> \<and>
   (profile state \<noteq> ''custom'' \<longrightarrow>
      rates (state\<lparr>customRates := cr\<rparr>) = rates state \<and>
      calculation (state\<lparr>customRates := cr\<rparr>) = calculation state)"
proof -
  have "rates (state\<lparr>profile := ''other''\<rparr>) = \<lparr>onCall = 0.1, otNormal = 0.5, otHoliday = 1.5\<rparr>"
    by (simp add: rates_def)
  moreover have "calculation (state\<lparr>customRates := cr\<rparr>) = calculation state"
    if "profile state \<noteq> ''custom''"
    using that by (simp add: calculation_def hourlyWage_customRates rates_customRates)
  ultimately show ?thesis
    by (simp add: rates_customRates)
qed

theorem rates_other_fixed_witness:
  "rates (aprilState\<lparr>profile := ''other''\<rparr>) = \<lparr>onCall = 0.1, otNormal = 0.5, otHoliday = 1.5\<rparr> \<and>
   rates (aprilState\<lparr>customRates := \<lparr>onCall = 9, otNormal = 9, otHoliday = 9\<rparr>\<rparr>)
     = \<lparr>onCall = 0.2, otNormal = 0.5, otHoliday = 1.5\<rparr> \<and>
   calculation (aprilState\<lparr>customRates := \<lparr>onCall = 9, otNormal = 9, otHoliday = 9\<rparr>\<rparr>)
     = calculation aprilState"
proof -
  have p: "profile aprilState \<noteq> ''custom''"
    by (simp add: aprilState_def)
  have r: "rates aprilState = \<lparr>onCall = 0.2, otNormal = 0.5, otHoliday = 1.5\<rparr>"
    by (simp add: rates_def aprilState_def)
  show ?thesis
    using rates_other_fixed [of aprilState "\<lparr>onCall = 9, otNormal = 9, otHoliday = 9\<rparr>"] p r
    by simp
qed

subsection \<open>Standby hours and work logs\<close>

lemma standbyStep_add: "standbyStep t item = t + standbyStep 0 item"
  by (simp add: standbyStep_def Let_def)

lemma foldl_standbyStep: "foldl standbyStep t items = t + sum_list (map (standbyStep 0) items)"
proof (induction items arbitrary: t)
  case Nil
  show ?case by simp
next
  case (Cons item items)
  have "foldl standbyStep t (item # items) = foldl standbyStep (standbyStep t item) items"
    by simp
  also have "\<dots> = standbyStep t item + sum_list (map (standbyStep 0) items)"
    by (rule Cons.IH)
  also have "\<dots> = t + sum_list (map (standbyStep 0) (item # items))"
    using standbyStep_add [of t item] by simp
  finally show ?case .
qed

lemma standbyHoursOf_sum: "standbyHoursOf items = sum_list (map (standbyStep 0) items)"
  by (simp add: standbyHoursOf_def foldl_standbyStep)

lemma workLogStep_fields:
  "workNormal (workLogStep acc l) =
     workNormal acc
       + (if isCzechHoliday (log_date l) \<or> log_isHolidayOverride l then 0 else log_hours l)"
  "workHoliday (workLogStep acc l) =
     workHoliday acc
       + (if isCzechHoliday (log_date l) \<or> log_isHolidayOverride l then log_hours l else 0)"
  "workDuration (workLogStep acc l) = workDuration acc + log_hours l"
  by (simp_all add: workLogStep_def Let_def)

lemma foldl_workLogStep:
  "foldl workLogStep acc logs =
     \<lparr>workNormal = workNormal acc + sum_list (map log_hours
        (filter (\<lambda>l. \<not> (isCzechHoliday (log_date l) \<or> log_isHolidayOverride l)) logs)),
      workHoliday = workHoliday acc + sum_list (map log_hours
        (filter (\<lambda>l. isCzechHoliday (log_date l) \<or> log_isHolidayOverride l) logs)),
      workDuration = workDuration acc + sum_list (map log_hours logs)\<rparr>"
proof (induction logs arbitrary: acc)
  case Nil
  show ?case by simp
next
  case (Cons l logs)
  have "foldl workLogStep acc (l # logs) = foldl workLogStep (workLogStep acc l) logs"
    by simp
  also have "\<dots> =
     \<lparr>workNormal = workNormal (workLogStep acc l) + sum_list (map log_hours
        (filter (\<lambda>l. \<not> (isCzechHoliday (log_date l) \<or> log_isHolidayOverride l)) logs)),
      workHoliday = workHoliday (workLogStep acc l) + sum_list (map log_hours
        (filter (\<lambda>l. isCzechHoliday (log_date l) \<or> log_isHolidayOverride l) logs)),
      workDuration = workDuration (workLogStep acc l) + sum_list (map log_hours logs)\<rparr>"
    by (rule Cons.IH)
  also have "\<dots> =
     \<lparr>workNormal = workNormal acc + sum_list (map log_hours
        (filter (\<lambda>l. \<not> (isCzechHoliday (log_date l) \<or> log_isHolidayOverride l)) (l # logs))),
      workHoliday = workHoliday acc + sum_list (map log_hours
        (filter (\<lambda>l. isCzechHoliday (log_date l) \<or> log_isHolidayOverride l) (l # logs))),
      workDuration = workDuration acc + sum_list (map log_hours (l # logs))\<rparr>"
    by (simp add: workLogStep_fields)
  finally show ?case .
qed

lemma workTotalsOf_duration: "workDuration (workTotalsOf logs) = sum_list (map log_hours logs)"
  by (simp add: workTotalsOf_def foldl_workLogStep)

lemma workTotalsOf_holiday:
  "workHoliday (workTotalsOf logs) = sum_list (map log_hours
     (filter (\<lambda>l. isCzechHoliday (log_date l) \<or> log_isHolidayOverride l) logs))"
  by (simp add: workTotalsOf_def foldl_workLogStep)

lemma workTotalsOf_normal:
  "workNormal (workTotalsOf logs) = sum_list (map log_hours
     (filter (\<lambda>l. \<not> (isCzechHoliday (log_date l) \<or> log_isHolidayOverride l)) logs))"
  by (simp add: workTotalsOf_def foldl_workLogStep)

lemma paidStandbyHours_eq:
  "res_paidStandbyHours (calculation state) =
     max 0 (standbyHoursOf (selectedOnCallDates state) - workDuration (workTotalsOf (workLogs state)))"
  by (simp add: calculation_def Let_def)

lemma sat_6_april_weekend: "isWeekend \<lparr>fullYear = 2024, monthIndex = 3, dayOfMonth = 6\<rparr>"
  by code_simp

lemma tue_2_april_plain:
  "\<not> isWeekend \<lparr>fullYear = 2024, monthIndex = 3, dayOfMonth = 2\<rparr> \<and>
   \<not> isCzechHoliday \<lparr>fullYear = 2024, monthIndex = 3, dayOfMonth = 2\<rparr>"
  by code_simp

lemma fortyHourShifts_hours: "standbyHoursOf fortyHourShifts = 40"
  by (simp add: standbyHoursOf_sum fortyHourShifts_def standbyStep_def sat_6_april_weekend
      tue_2_april_plain)

text \<open>
  C4. The paid standby hours are the total standby hours minus the sum of the hours of all
  work logs, and never less than 0. The subtraction is of the two totals, whatever the
  dates of the shifts and of the logs are: 40 standby hours and 10 worked hours leave 30,
  and 50 worked hours leave 0.
\<close>

theorem paidStandbyHours_global:
  "res_paidStandbyHours (calculation state) =
     max 0 (standbyHoursOf (selectedOnCallDates state)
            - sum_list (map log_hours (workLogs state))) \<and>
   0 \<le> res_paidStandbyHours (calculation state) \<and>
   (standbyHoursOf (selectedOnCallDates state) = 40 \<and>
    sum_list (map log_hours (workLogs state)) = 10 \<longrightarrow>
      res_paidStandbyHours (calculation state) = 30) \<and>
   (standbyHoursOf (selectedOnCallDates state) = 40 \<and>
    sum_list (map log_hours (workLogs state)) = 50 \<longrightarrow>
      res_paidStandbyHours (calculation state) = 0)"
  by (simp add: paidStandbyHours_eq workTotalsOf_duration)

text \<open>
  A Saturday and a Tuesday Full shift give 40 standby hours; work logged on other days
  of the month is subtracted from them.
\<close>

theorem paidStandbyHours_global_witness:
  "res_paidStandbyHours (calculation (aprilState\<lparr>selectedOnCallDates := fortyHourShifts,
      workLogs := [workLogOf \<lparr>fullYear = 2024, monthIndex = 3, dayOfMonth = 10\<rparr> 10 False]\<rparr>)) = 30 \<and>
   res_paidStandbyHours (calculation (aprilState\<lparr>selectedOnCallDates := fortyHourShifts,
      workLogs := [workLogOf \<lparr>fullYear = 2024, monthIndex = 3, dayOfMonth = 10\<rparr> 20 False,
                   workLogOf \<lparr>fullYear = 2024, monthIndex = 3, dayOfMonth = 11\<rparr> 30 False]\<rparr>)) = 0"
  using paidStandbyHours_global [of "aprilState\<lparr>selectedOnCallDates := fortyHourShifts,
      workLogs := [workLogOf \<lparr>fullYear = 2024, monthIndex = 3, dayOfMonth = 10\<rparr> 10 False]\<rparr>"]
    paidStandbyHours_global [of "aprilState\<lparr>selectedOnCallDates := fortyHourShifts,
      workLogs := [workLogOf \<lparr>fullYear = 2024, monthIndex = 3, dayOfMonth = 10\<rparr> 20 False,
                   workLogOf \<lparr>fullYear = 2024, monthIndex = 3, dayOfMonth = 11\<rparr> 30 False]\<rparr>"]
  by (simp add: fortyHourShifts_hours workLogOf_def)

lemma wed_1_may_holiday: "isCzechHoliday \<lparr>fullYear = 2024, monthIndex = 4, dayOfMonth = 1\<rparr>"
  by code_simp


text \<open>
  C6. An entry counts as holiday work when its date is a holiday or its override flag is
  set: the holiday bucket is the sum of the hours of these entries, the normal bucket the
  sum of the others. For an entry on a detected holiday the hours go to the holiday
  bucket and the value of the override flag makes no difference.
\<close>

theorem holiday_union:
  "res_totalWorkHoliday (calculation state) = sum_list (map log_hours
     (filter (\<lambda>l. isCzechHoliday (log_date l) \<or> log_isHolidayOverride l) (workLogs state))) \<and>
   res_totalWorkNormal (calculation state) = sum_list (map log_hours
     (filter (\<lambda>l. \<not> (isCzechHoliday (log_date l) \<or> log_isHolidayOverride l)) (workLogs state))) \<and>
   (isCzechHoliday (log_date entry) \<longrightarrow>
      workHoliday (workLogStep acc entry) = workHoliday acc + log_hours entry \<and>
      workNormal (workLogStep acc entry) = workNormal acc \<and>
      workLogStep acc (entry\<lparr>log_isHolidayOverride := False\<rparr>)
        = workLogStep acc (entry\<lparr>log_isHolidayOverride := True\<rparr>))"
proof -
  have "res_totalWorkHoliday (calculation state) = workHoliday (workTotalsOf (workLogs state))"
    and "res_totalWorkNormal (calculation state) = workNormal (workTotalsOf (workLogs state))"
    by (simp_all add: calculation_def Let_def)
  moreover have "workLogStep acc (entry\<lparr>log_isHolidayOverride := False\<rparr>)
        = workLogStep acc (entry\<lparr>log_isHolidayOverride := True\<rparr>)"
    if "isCzechHoliday (log_date entry)"
    using that by (simp add: workLogStep_def Let_def)
  ultimately show ?thesis
    by (simp add: workTotalsOf_holiday workTotalsOf_normal workLogStep_fields)
qed

theorem holiday_union_witness:
  "isCzechHoliday (log_date (workLogOf \<lparr>fullYear = 2024, monthIndex = 4, dayOfMonth = 1\<rparr> 5 False)) \<and>
   workHoliday (workLogStep \<lparr>workNormal = 0, workHoliday = 0, workDuration = 0\<rparr>
      (workLogOf \<lparr>fullYear = 2024, monthIndex = 4, dayOfMonth = 1\<rparr> 5 False)) = 5 \<and>
   workNormal (workLogStep \<lparr>workNormal = 0, workHoliday = 0, workDuration = 0\<rparr>
      (workLogOf \<lparr>fullYear = 2024, monthIndex = 4, dayOfMonth = 1\<rparr> 5 False)) = 0 \<and>
   res_totalWorkHoliday (calculation (aprilState\<lparr>workLogs :=
      [workLogOf \<lparr>fullYear = 2024, monthIndex = 4, dayOfMonth = 1\<rparr> 5 False,
       workLogOf \<lparr>fullYear = 2024, monthIndex = 3, dayOfMonth = 2\<rparr> 3 True,
       workLogOf \<lparr>fullYear = 2024, monthIndex = 3, dayOfMonth = 2\<rparr> 2 False]\<rparr>)) = 8 \<and>
   res_totalWorkNormal (calculation (aprilState\<lparr>workLogs :=
      [workLogOf \<lparr>fullYear = 2024, monthIndex = 4, dayOfMonth = 1\<rparr> 5 False,
       workLogOf \<lparr>fullYear = 2024, monthIndex = 3, dayOfMonth = 2\<rparr> 3 True,
       workLogOf \<lparr>fullYear = 2024, monthIndex = 3, dayOfMonth = 2\<rparr> 2 False]\<rparr>)) = 2"
proof -
  let ?e = "workLogOf \<lparr>fullYear = 2024, monthIndex = 4, dayOfMonth = 1\<rparr> 5 False"
  let ?z = "\<lparr>workNormal = 0, workHoliday = 0, workDuration = 0\<rparr>"
  let ?logs = "[workLogOf \<lparr>fullYear = 2024, monthIndex = 4, dayOfMonth = 1\<rparr> 5 False,
       workLogOf \<lparr>fullYear = 2024, monthIndex = 3, dayOfMonth = 2\<rparr> 3 True,
       workLogOf \<lparr>fullYear = 2024, monthIndex = 3, dayOfMonth = 2\<rparr> 2 False]"
  let ?s = "aprilState\<lparr>workLogs := ?logs\<rparr>"
  have hol: "isCzechHoliday (log_date ?e)"
    by (simp add: workLogOf_def wed_1_may_holiday)
  have logs: "workLogs ?s = ?logs"
    by simp
  have fh: "sum_list (map log_hours
     (filter (\<lambda>l. isCzechHoliday (log_date l) \<or> log_isHolidayOverride l) ?logs)) = 8"
    by (simp add: workLogOf_def wed_1_may_holiday tue_2_april_plain)
  have fn: "sum_list (map log_hours
     (filter (\<lambda>l. \<not> (isCzechHoliday (log_date l) \<or> log_isHolidayOverride l)) ?logs)) = 2"
    by (simp add: workLogOf_def wed_1_may_holiday tue_2_april_plain)
  have hrs: "log_hours ?e = 5"
    by (simp add: workLogOf_def)
  note u = holiday_union [of ?s ?e ?z]
  have 1: "res_totalWorkHoliday (calculation ?s) = 8"
    using u unfolding logs fh by (rule conjunct1)
  have 2: "res_totalWorkNormal (calculation ?s) = 2"
    using u unfolding logs fn by (rule conjunct1 [OF conjunct2])
  have 3: "workHoliday (workLogStep ?z ?e) = 5 \<and> workNormal (workLogStep ?z ?e) = 0"
    using u hol by (simp add: hrs)
  show ?thesis
    using hol 1 2 3 by blast
qed

lemma standbyStep_table:
  "standbyStep 0 item =
     (if day_type item = ''start'' then
        (if isCzechHoliday (day_date item) \<or> isWeekend (day_date item) then 15 else 7)
      else if day_type item = ''end'' then 9
      else if day_type item = ''split'' then 16
      else if isCzechHoliday (day_date item) \<or> isWeekend (day_date item) then 24 else 16)"
  by (simp add: standbyStep_def Let_def)

text \<open>
  C3. For assignments of the four variants the total standby hours are the sum, over all
  assignments, of: 24 or 16 hours for \<^verbatim>\<open>full\<close>, 15 or 7 hours for \<^verbatim>\<open>start\<close> (the larger value on a
  weekend or holiday, the smaller on a plain weekday), 9 hours for \<^verbatim>\<open>end\<close> and 16 hours
  for \<^verbatim>\<open>split\<close>. The sum is not capped.
\<close>

theorem standby_hours_by_variant:
  assumes "\<forall>item \<in> set items. day_type item \<in> {''full'', ''start'', ''end'', ''split''}"
  shows "standbyHoursOf items =
     (\<Sum>item \<leftarrow> items.
        if day_type item = ''full'' then
          (if isCzechHoliday (day_date item) \<or> isWeekend (day_date item) then 24 else 16)
        else if day_type item = ''start'' then
          (if isCzechHoliday (day_date item) \<or> isWeekend (day_date item) then 15 else 7)
        else if day_type item = ''end'' then 9
        else 16)"
proof -
  have "standbyStep 0 item =
     (if day_type item = ''full'' then
          (if isCzechHoliday (day_date item) \<or> isWeekend (day_date item) then 24 else 16)
        else if day_type item = ''start'' then
          (if isCzechHoliday (day_date item) \<or> isWeekend (day_date item) then 15 else 7)
        else if day_type item = ''end'' then 9
        else 16)" if "item \<in> set items" for item
  proof -
    from assms that
    have "day_type item \<in> {''full'', ''start'', ''end'', ''split''}"
      by blast
    then show ?thesis
      by (auto simp: standbyStep_table)
  qed
  then show ?thesis
    unfolding standbyHoursOf_sum by (intro arg_cong [where f = sum_list] map_cong) simp_all
qed

lemma april_2024_days:
  "\<not> isWeekend \<lparr>fullYear = 2024, monthIndex = 3, dayOfMonth = 3\<rparr>"
  "\<not> isCzechHoliday \<lparr>fullYear = 2024, monthIndex = 3, dayOfMonth = 3\<rparr>"
  "isWeekend \<lparr>fullYear = 2024, monthIndex = 3, dayOfMonth = 7\<rparr>"
  by code_simp+

text \<open>
  Full on Saturday 6 April 2024 and on Tuesday 2 April, Start on Wednesday 3 April and on
  Sunday 7 April, End on a weekday and on Easter Monday, Split on a weekday and on a
  Saturday, Full on the holiday of Wednesday 1 May.
\<close>

theorem standby_hours_by_variant_witness:
  "standbyHoursOf allVariantShifts = 24 + 16 + 7 + 15 + 9 + 9 + 16 + 16 + 24"
proof -
  have h: "\<forall>item \<in> set allVariantShifts. day_type item \<in> {''full'', ''start'', ''end'', ''split''}"
    by (simp add: allVariantShifts_def)
  show ?thesis
    using standby_hours_by_variant [OF h]
    by (simp add: allVariantShifts_def sat_6_april_weekend tue_2_april_plain april_2024_days
        wed_1_may_holiday)
qed

text \<open>
  C2 (as amended). An assignment whose tag is none of \<^verbatim>\<open>start\<close>, \<^verbatim>\<open>end\<close> and \<^verbatim>\<open>split\<close> is
  handled as a Full shift, whether its tag is \<^verbatim>\<open>full\<close> or anything else: it adds 24 hours
  on a weekend or holiday and 16 hours on a plain weekday, and nothing is signalled.
\<close>

theorem unknown_variant_is_full:
  assumes "day_type item \<notin> {''start'', ''end'', ''split''}"
  shows "standbyStep acc item =
           acc + (if isCzechHoliday (day_date item) \<or> isWeekend (day_date item) then 24 else 16) \<and>
         standbyStep acc item = standbyStep acc (item\<lparr>day_type := ''full''\<rparr>)"
  using assms by (simp add: standbyStep_def Let_def)

theorem unknown_variant_is_full_witness:
  "''handoff'' \<notin> {''start'', ''end'', ''split''} \<and>
   standbyStep 0 \<lparr>day_date = \<lparr>fullYear = 2024, monthIndex = 3, dayOfMonth = 6\<rparr>,
                  day_type = ''handoff''\<rparr> = 24"
  using unknown_variant_is_full [of "\<lparr>day_date = \<lparr>fullYear = 2024, monthIndex = 3, dayOfMonth = 6\<rparr>,
                  day_type = ''handoff''\<rparr>" 0]
  by (simp add: sat_6_april_weekend)

text \<open>
  C2 as stated fails for the tag \<^verbatim>\<open>handoff\<close> (the tag the earlier version of the file
  stored): on Tuesday 2 April 2024 it is given 16 standby hours, and the result is
  constructed with 16 paid standby hours.
\<close>

theorem unknown_variant_counterexample:
  "standbyHoursOf [\<lparr>day_date = \<lparr>fullYear = 2024, monthIndex = 3, dayOfMonth = 2\<rparr>,
                    day_type = ''handoff''\<rparr>] = 16 \<and>
   res_paidStandbyHours (calculation (aprilState\<lparr>selectedOnCallDates :=
     [\<lparr>day_date = \<lparr>fullYear = 2024, monthIndex = 3, dayOfMonth = 2\<rparr>,
       day_type = ''handoff''\<rparr>]\<rparr>)) = 16"
proof -
  have a: "standbyHoursOf [\<lparr>day_date = \<lparr>fullYear = 2024, monthIndex = 3, dayOfMonth = 2\<rparr>,
                    day_type = ''handoff''\<rparr>] = 16"
    by (simp add: standbyHoursOf_sum standbyStep_table tue_2_april_plain)
  have b: "workLogs aprilState = []"
    by (simp add: aprilState_def)
  show ?thesis
    by (simp add: paidStandbyHours_eq a b workTotalsOf_def)
qed

text \<open>
  C8. The on-call fee is the paid standby hours times the hourly wage times the standby
  rate; each overtime pay is its hours times the hourly wage times one plus its
  multiplier; the total is the sum of the three. For a salary of 80000, April 2024 (176
  hours), the profile \<^verbatim>\<open>devops\<close>, one Full shift on Tuesday 2 April and no work logs: the
  hourly wage is 5000/11 (about 454.55), the paid standby hours are 16, the fee and the
  total are 16000/11 (about 1454.5).
\<close>

theorem compensation_formulas:
  "res_onCallFee (calculation state) =
     res_paidStandbyHours (calculation state) * hourlyWage state * onCall (rates state) \<and>
   res_overtimeNormalPay (calculation state) =
     res_totalWorkNormal (calculation state) * hourlyWage state * (1 + otNormal (rates state)) \<and>
   res_overtimeHolidayPay (calculation state) =
     res_totalWorkHoliday (calculation state) * hourlyWage state * (1 + otHoliday (rates state)) \<and>
   res_totalExtra (calculation state) =
     res_onCallFee (calculation state) + res_overtimeNormalPay (calculation state)
       + res_overtimeHolidayPay (calculation state) \<and>
   res_hourlyWage (calculation state) = hourlyWage state \<and>
   res_hourlyWage (calculation (aprilState\<lparr>selectedOnCallDates :=
     [\<lparr>day_date = \<lparr>fullYear = 2024, monthIndex = 3, dayOfMonth = 2\<rparr>, day_type = ''full''\<rparr>]\<rparr>))
     = 5000 / 11 \<and>
   \<bar>5000 / 11 - 454.55\<bar> < (0.01 :: real) \<and>
   res_paidStandbyHours (calculation (aprilState\<lparr>selectedOnCallDates :=
     [\<lparr>day_date = \<lparr>fullYear = 2024, monthIndex = 3, dayOfMonth = 2\<rparr>, day_type = ''full''\<rparr>]\<rparr>))
     = 16 \<and>
   res_onCallFee (calculation (aprilState\<lparr>selectedOnCallDates :=
     [\<lparr>day_date = \<lparr>fullYear = 2024, monthIndex = 3, dayOfMonth = 2\<rparr>, day_type = ''full''\<rparr>]\<rparr>))
     = 16000 / 11 \<and>
   res_totalExtra (calculation (aprilState\<lparr>selectedOnCallDates :=
     [\<lparr>day_date = \<lparr>fullYear = 2024, monthIndex = 3, dayOfMonth = 2\<rparr>, day_type = ''full''\<rparr>]\<rparr>))
     = 16000 / 11 \<and>
   \<bar>16000 / 11 - 1454.5\<bar> < (0.05 :: real)"
proof -
  let ?s = "aprilState\<lparr>selectedOnCallDates :=
     [\<lparr>day_date = \<lparr>fullYear = 2024, monthIndex = 3, dayOfMonth = 2\<rparr>, day_type = ''full''\<rparr>]\<rparr>"
  have fields: "monthlySalary ?s = 80000" "monthlyHoursOverride ?s = None"
    "profile ?s = ''devops''" "workLogs ?s = []"
    "selectedDate ?s = \<lparr>fullYear = 2024, monthIndex = 3, dayOfMonth = 15\<rparr>"
    by (simp_all add: aprilState_def)
  have std: "standardMonthlyHours ?s = 176"
    by (simp add: standardMonthlyHours_def fields april_2024_hours)
  have eff: "effectiveMonthlyHours ?s = 176"
    by (simp add: effectiveMonthlyHours_def std fields)
  have wage: "hourlyWage ?s = 5000 / 11"
    by (simp add: hourlyWage_def eff fields)
  have rt: "rates ?s = \<lparr>onCall = 0.2, otNormal = 0.5, otHoliday = 1.5\<rparr>"
    by (simp add: rates_def fields)
  have sb: "standbyHoursOf (selectedOnCallDates ?s) = 16"
    by (simp add: standbyHoursOf_sum standbyStep_table tue_2_april_plain)
  have wl: "workTotalsOf (workLogs ?s) = \<lparr>workNormal = 0, workHoliday = 0, workDuration = 0\<rparr>"
    by (simp add: workTotalsOf_def fields)
  have general: "res_onCallFee (calculation state) =
     res_paidStandbyHours (calculation state) * hourlyWage state * onCall (rates state) \<and>
   res_overtimeNormalPay (calculation state) =
     res_totalWorkNormal (calculation state) * hourlyWage state * (1 + otNormal (rates state)) \<and>
   res_overtimeHolidayPay (calculation state) =
     res_totalWorkHoliday (calculation state) * hourlyWage state * (1 + otHoliday (rates state)) \<and>
   res_totalExtra (calculation state) =
     res_onCallFee (calculation state) + res_overtimeNormalPay (calculation state)
       + res_overtimeHolidayPay (calculation state) \<and>
   res_hourlyWage (calculation state) = hourlyWage state"
    by (simp add: calculation_def Let_def)
  have calc: "calculation ?s =
     \<lparr>res_paidStandbyHours = 16, res_totalWorkNormal = 0, res_totalWorkHoliday = 0,
      res_onCallFee = 16000 / 11, res_overtimeNormalPay = 0, res_overtimeHolidayPay = 0,
      res_totalExtra = 16000 / 11, res_hourlyWage = 5000 / 11\<rparr>"
    unfolding calculation_def Let_def sb wl wage rt by simp
  have approx: "\<bar>5000 / 11 - 454.55\<bar> < (0.01 :: real)" "\<bar>16000 / 11 - 1454.5\<bar> < (0.05 :: real)"
    by simp_all
  show ?thesis
    using general approx by (simp only: calc Calculation.simps)
qed

subsection \<open>Months and standard hours\<close>











subsection \<open>Holidays of a year\<close>
















end
